theory Spec2Isabelle
  imports Complex_Main "HOL-Library.Word"
begin

section \<open>Values of the host language\<close>

text \<open>
  A string of the program is a sequence of UTF-16 code units, and its \<open>.length\<close>
  counts code units. String literals of the source are ASCII; \<open>lit\<close> embeds them.
\<close>

type_synonym js_string = "16 word list"

definition lit :: "string \<Rightarrow> js_string" where
  "lit s = map (\<lambda>c. of_nat (of_char c)) s"

text \<open>
  A number of the program: a double. Only the distinction between \<open>NaN\<close>, zero and the
  other values is used by the code; \<open>-0\<close> and \<open>+0\<close> are both \<open>Num 0\<close>.
\<close>

datatype js_number = NaN | PosInfinity | NegInfinity | Num real

text \<open>Truthiness of a number: \<open>NaN\<close> and zero are falsy, everything else is truthy.\<close>

fun truthy :: "js_number \<Rightarrow> bool" where
  "truthy NaN = False"
| "truthy (Num x) = (x \<noteq> 0)"
| "truthy PosInfinity = True"
| "truthy NegInfinity = True"

section \<open>The invocation primitive and the toasts\<close>

text \<open>
  The operations of the two request families used in \<open>Device.tsx\<close>, with their
  arguments: \<open>{ id: newId }\<close>, \<open>{ name: newName }\<close>, \<open>{ data: [...] }\<close>, or \<open>{}\<close>.
\<close>

datatype request =
    Blink
  | SetId js_number
  | SetName js_string
  | CommitToEeprom
  | Progress
  | GetFirmwareUrl
  | DoFieldUpgrade "nat list"

fun method_name :: "request \<Rightarrow> string" where
  "method_name Blink = ''blink''"
| "method_name (SetId _) = ''set_id''"
| "method_name (SetName _) = ''set_name''"
| "method_name CommitToEeprom = ''commit_to_eeprom''"
| "method_name Progress = ''progress''"
| "method_name GetFirmwareUrl = ''get_firmware_url''"
| "method_name (DoFieldUpgrade _) = ''do_field_upgrade''"

text \<open>
  What a handler does to the outside world, in order: an invocation handed to
  \<open>invoke\<close>, an error handed to \<open>addError\<close> (the toast shown to the operator), or a
  rejected promise that no handler of this file catches.
\<close>

datatype effect =
    Invoke request
  | AddError js_string
  | UnhandledRejection js_string

text \<open>
  Modelled from the spec: \<open>rpc\<close> of \<open>../rpc\<close> is not among the sources. It is the
  single generic primitive "invoke operation X with arguments A, await the result";
  a failure of the transport is surfaced as one failure value, with no retry. Here the
  call hands one request to \<open>invoke\<close>, and the promise settles with the outcome the
  environment supplies: \<open>Inl e\<close> is a rejection with error \<open>e\<close>, \<open>Inr r\<close> a result.
\<close>

type_synonym 'r outcome = "js_string + 'r"

text \<open>\<open>rpc(invoke, m, args).catch(addError)\<close>\<close>

definition rpc_catch_addError :: "request \<Rightarrow> 'r outcome \<Rightarrow> effect list" where
  "rpc_catch_addError req res =
     Invoke req # (case res of Inl e \<Rightarrow> [AddError e] | Inr _ \<Rightarrow> [])"

text \<open>\<open>rpc(invoke, m, args)\<close> with no handler attached to the returned promise.\<close>

definition rpc_bare :: "request \<Rightarrow> 'r outcome \<Rightarrow> effect list" where
  "rpc_bare req res =
     Invoke req # (case res of Inl e \<Rightarrow> [UnhandledRejection e] | Inr _ \<Rightarrow> [])"

text \<open>The invocations among a list of effects.\<close>

fun invocations :: "effect list \<Rightarrow> request list" where
  "invocations [] = []"
| "invocations (Invoke r # es) = r # invocations es"
| "invocations (_ # es) = invocations es"

section \<open>GrappleDeviceHeaderComponent\<close>

subsection \<open>changeName\<close>

text \<open>
  \<open>newName\<close> is what \<open>confirmModal\<close> resolved with; \<open>res\<close> is how the \<open>set_name\<close>
  promise settles when one is issued.
\<close>

definition changeName :: "js_string \<Rightarrow> unit outcome \<Rightarrow> effect list" where
  "changeName newName res =
     (if length newName > 16
      then [AddError (lit ''Name is too long!'')]
      else rpc_catch_addError (SetName newName) res)"


subsection \<open>changeId\<close>

text \<open>
  The attributes of the numeric field that \<open>changeId\<close> hands to the dialog:
  \<open>min={0} max={0x3F - 1} step={1}\<close>.
\<close>

record number_input =
  input_min :: int
  input_max :: int
  input_step :: int

definition changeId_input :: number_input where
  "changeId_input = \<lparr> input_min = 0, input_max = 0x3F - 1, input_step = 1 \<rparr>"

text \<open>
  The range constraint such a field declares: a value suffers from neither an underflow
  (below \<open>min\<close>), nor an overflow (above \<open>max\<close>), nor a step mismatch (off the grid
  that starts at \<open>min\<close>). Both bounds are inclusive.
\<close>

definition in_range :: "number_input \<Rightarrow> int \<Rightarrow> bool" where
  "in_range inp v \<longleftrightarrow>
     input_min inp \<le> v \<and> v \<le> input_max inp \<and> (v - input_min inp) mod input_step inp = 0"

text \<open>\<open>x || 0\<close> on a number: a falsy \<open>x\<close> gives \<open>0\<close>, a truthy \<open>x\<close> gives \<open>x\<close>.\<close>

definition or_zero :: "js_number \<Rightarrow> js_number" where
  "or_zero x = (if truthy x then x else Num 0)"

text \<open>
  \<open>Number\<close> is the built-in conversion of the host language, a parameter here; \<open>reply\<close>
  is what \<open>confirmModal\<close> resolved with; \<open>res\<close> is how the \<open>set_id\<close> promise settles.
  No check stands between the conversion and the invocation.
\<close>

definition changeId :: "(js_string \<Rightarrow> js_number) \<Rightarrow> js_string \<Rightarrow> unit outcome \<Rightarrow> effect list" where
  "changeId Number reply res =
     (let newId = or_zero (Number reply)
      in rpc_catch_addError (SetId newId) res)"

subsection \<open>The buttons Blink and Commit Configuration\<close>

text \<open>
  \<open>onClick={() => rpc(invoke, "blink", {})}\<close> and the same for
  \<open>"commit_to_eeprom"\<close>: the promise is returned to the button and nothing is attached
  to it. The component holds no state of its own (no \<open>useState\<close>), so a handler is
  described by its effects alone.
\<close>

definition blink_onClick :: "unit outcome \<Rightarrow> effect list" where
  "blink_onClick res = rpc_bare Blink res"

definition commit_onClick :: "unit outcome \<Rightarrow> effect list" where
  "commit_onClick res = rpc_bare CommitToEeprom res"

text \<open>The errors that reached the operator through \<open>addError\<close>.\<close>

fun reported :: "effect list \<Rightarrow> js_string list" where
  "reported [] = []"
| "reported (AddError e # es) = e # reported es"
| "reported (_ # es) = reported es"

section \<open>DeviceComponent\<close>

subsection \<open>The device descriptor\<close>

text \<open>
  Modelled from the spec: the types \<open>DeviceType\<close> and \<open>DeviceInfo\<close> of \<open>../schema\<close> are
  not among the sources. The type tag is one of the well-known kinds, the vendor kind
  with its name (the object \<open>{ Grapple: ... }\<close>), or unknown; the descriptor has an
  optional bus id, display name, serial number and firmware version, and the bootloader
  flag. An optional field that is \<open>undefined\<close> or \<open>null\<close> is \<open>None\<close>: the source tests
  them with \<open>!= undefined\<close>, which holds for neither.
\<close>

datatype DeviceType = RoboRIO | Unknown | Grapple js_string

record DeviceInfo =
  device_type :: DeviceType
  device_id :: "nat option"
  name :: "js_string option"
  serial :: "nat option"
  firmware_version :: "js_string option"
  is_dfu :: bool

text \<open>
  The last \<open>else\<close> of the source (an object without the key \<open>Grapple\<close>) has no value
  of \<open>DeviceType\<close> that reaches it.
\<close>

fun renderDeviceType :: "DeviceType \<Rightarrow> js_string" where
  "renderDeviceType RoboRIO = lit ''NI RoboRIO''"
| "renderDeviceType Unknown = lit ''Unknown Device''"
| "renderDeviceType (Grapple model) = model"

subsection \<open>The table of factories\<close>

text \<open>The five components a factory of the table can build.\<close>

datatype component =
    OldVersionDevice
  | FirmwareUpdateComponent
  | LaserCanComponent
  | MitocandriaComponent
  | FlexiCanComponent

text \<open>The own properties of the object literal \<open>FACTORIES\<close>, in source order.\<close>

definition FACTORIES :: "(js_string \<times> component) list" where
  "FACTORIES =
     [(lit ''OldVersionDevice'', OldVersionDevice),
      (lit ''GrappleFirmwareUpgrade'', FirmwareUpdateComponent),
      (lit ''LaserCAN'', LaserCanComponent),
      (lit ''MitoCANdria'', MitocandriaComponent),
      (lit ''FlexiCAN'', FlexiCanComponent)]"

text \<open>
  \<open>FACTORIES\<close> is written as an object literal, so its prototype is \<open>Object.prototype\<close>,
  and \<open>FACTORIES[k]\<close> is a property read: it finds an own property first and a
  property of the prototype otherwise. These are the property names of
  \<open>Object.prototype\<close>; all are functions but \<open>__proto__\<close>, an accessor whose value here
  is \<open>Object.prototype\<close> itself.
\<close>

definition Object_prototype :: "js_string list" where
  "Object_prototype =
     [lit ''constructor'', lit ''__defineGetter__'', lit ''__defineSetter__'',
      lit ''hasOwnProperty'', lit ''__lookupGetter__'', lit ''__lookupSetter__'',
      lit ''isPrototypeOf'', lit ''propertyIsEnumerable'', lit ''toString'',
      lit ''valueOf'', lit ''__proto__'', lit ''toLocaleString'']"

text \<open>What a read of \<open>FACTORIES[k]\<close> gives.\<close>

datatype property =
    Undefined
  | Factory component
  | Inherited js_string

definition getFactory :: "js_string \<Rightarrow> property" where
  "getFactory device_class =
     (case map_of FACTORIES device_class of
        Some c \<Rightarrow> Factory c
      | None \<Rightarrow>
          if device_class \<in> set Object_prototype then Inherited device_class else Undefined)"

subsection \<open>What DeviceComponent renders\<close>

text \<open>
  The heading \<open>h3\<close>, as the list of its children that render something: the label of
  the type, \<open>#id\<close>, \<open>(name)\<close>, and the orange \<open>span\<close>.
\<close>

datatype heading_part =
    TypeLabel js_string
  | IdTag nat
  | NameTag js_string
  | OrangeSpan js_string

definition heading :: "DeviceInfo \<Rightarrow> heading_part list" where
  "heading info =
     (if is_dfu info
      then [TypeLabel (renderDeviceType (device_type info))]
           @ (case device_id info of Some i \<Rightarrow> [IdTag i] | None \<Rightarrow> [])
           @ [OrangeSpan (lit ''FIRMWARE UPDATE'')]
      else [TypeLabel (renderDeviceType (device_type info))]
           @ (case device_id info of Some i \<Rightarrow> [IdTag i] | None \<Rightarrow> [])
           @ (case name info of Some n \<Rightarrow> [NameTag n] | None \<Rightarrow> []))"

text \<open>
  The muted paragraph under the heading, present when a serial or a firmware version
  is. \<open>SerialText n\<close> is the text \<open>Serial: 0x\<close> with \<open>n\<close> in hexadecimal;
  \<open>VersionText l v\<close> is the template \<open>l\<close> followed by the interpolated
  \<open>firmware_version\<close>, which may be absent there. The condition of the source's
  conditional is \<open>firmware_version != undefined && is_dfu\<close>, since \<open>&&\<close> binds tighter
  than \<open>? :\<close>.
\<close>

datatype detail_part =
    SerialText nat
  | VersionText js_string "js_string option"

definition details :: "DeviceInfo \<Rightarrow> detail_part list option" where
  "details info =
     (if serial info \<noteq> None \<or> firmware_version info \<noteq> None
      then Some ((case serial info of Some n \<Rightarrow> [SerialText n] | None \<Rightarrow> [])
                 @ [if firmware_version info \<noteq> None \<and> is_dfu info
                    then VersionText (lit ''Bootloader: '') (firmware_version info)
                    else VersionText (lit ''Firmware: '') (firmware_version info)])
      else None)"

text \<open>
  The third child: the element the factory builds from \<open>info\<close> and \<open>invoke\<close>, or the
  \<open>Bug\<close> element, whose \<open>specifics\<close> are made of \<open>JSON.stringify(info.device_type)\<close> and
  \<open>device_class\<close>. The branch is chosen by \<open>factory !== undefined\<close>. An inherited
  property is not \<open>undefined\<close>, so it is called as \<open>factory(info, invoke)\<close>, a plain
  call in module code, where \<open>this\<close> is \<open>undefined\<close>:
  \<^item> \<open>constructor\<close> is \<open>Object\<close>, which returns its argument \<open>info\<close>, and \<open>toString\<close>
    returns the text \<open>[object Undefined]\<close>: the call returns a value that is none of
    the elements of the table and not the \<open>Bug\<close> element, recorded as
    \<open>BuiltinCalled k\<close>;
  \<^item> the value of \<open>__proto__\<close> is not callable, and every other built-in converts
    \<open>this\<close> to an object first: the call throws a \<open>TypeError\<close>.
\<close>

datatype js_error = TypeError

datatype element =
    Built component DeviceInfo
  | Bug DeviceType js_string
  | BuiltinCalled js_string

definition DeviceComponent_body :: "DeviceInfo \<Rightarrow> js_string \<Rightarrow> js_error + element" where
  "DeviceComponent_body info device_class =
     (case getFactory device_class of
        Factory c \<Rightarrow> Inr (Built c info)
      | Inherited k \<Rightarrow>
          if k = lit ''constructor'' \<or> k = lit ''toString''
          then Inr (BuiltinCalled k)
          else Inl TypeError
      | Undefined \<Rightarrow> Inr (Bug (device_type info) device_class))"

section \<open>FirmwareUpdateComponent\<close>

subsection \<open>uploadFirmware\<close>

text \<open>
  The \<open>loadend\<close> event of a \<open>FileReader\<close> comes once per read, after a read that
  succeeded and after one that failed; \<open>event.target.result\<close> is the buffer holding
  the bytes of the file in the first case and \<open>null\<close> in the second.
\<close>

definition reader_result :: "8 word list \<Rightarrow> bool \<Rightarrow> 8 word list option" where
  "reader_result file read_ok = (if read_ok then Some file else None)"

text \<open>\<open>new Uint8Array(r)\<close>: a view of the bytes of a buffer, and of length 0 for \<open>null\<close>.\<close>

definition Uint8Array :: "8 word list option \<Rightarrow> 8 word list" where
  "Uint8Array r = (case r of Some buf \<Rightarrow> buf | None \<Rightarrow> [])"

text \<open>\<open>Array.from\<close> of such a view: the numbers 0..255 the bytes stand for, in order.\<close>

definition Array_from :: "8 word list \<Rightarrow> nat list" where
  "Array_from bytes = map unat bytes"

definition uploadFirmware :: "8 word list \<Rightarrow> bool \<Rightarrow> unit outcome \<Rightarrow> effect list" where
  "uploadFirmware file read_ok res =
     rpc_catch_addError (DoFieldUpgrade (Array_from (Uint8Array (reader_result file read_ok)))) res"

subsection \<open>The session\<close>

text \<open>
  The two state cells of the component and the timer its effect registers:
  \<open>interval = Some p\<close> while the registration made by \<open>setInterval(..., p)\<close> stands,
  \<open>None\<close> once \<open>clearInterval\<close> has removed it.
\<close>

record session =
  progress :: "js_number option"
  firmwareURL :: "js_string option"
  interval :: "nat option"

text \<open>
  Mounting: both cells start as \<open>null\<close>; the effect registers the timer with a period
  of 250 ms and asks for the firmware URL once.
\<close>

definition mount :: "session \<times> effect list" where
  "mount = (\<lparr> progress = None, firmwareURL = None, interval = Some 250 \<rparr>,
            [Invoke GetFirmwareUrl])"

text \<open>
  What can happen to a mounted session. \<open>TimerDue\<close>: a period of the timer has elapsed;
  the callback runs only if the registration still stands. \<open>ProgressSettled\<close> and
  \<open>FirmwareUrlSettled\<close>: a promise of the respective invocation settles; a resolved
  value is handed to the setter of the cell, so it is a value of the cell's type.
  \<open>FileChosen\<close>: the operator picks a file in the upload control. \<open>Unmount\<close>: the
  cleanup of the effect runs.
\<close>

datatype event =
    TimerDue
  | ProgressSettled "js_number option outcome"
  | FirmwareUrlSettled "js_string option outcome"
  | FileChosen "8 word list" bool "unit outcome"
  | Unmount

fun step :: "session \<Rightarrow> event \<Rightarrow> session \<times> effect list" where
  "step s TimerDue = (s, if interval s \<noteq> None then [Invoke Progress] else [])"
| "step s (ProgressSettled (Inr p)) = (s\<lparr> progress := p \<rparr>, [])"
| "step s (ProgressSettled (Inl e)) = (s, [])"
| "step s (FirmwareUrlSettled (Inr u)) = (s\<lparr> firmwareURL := u \<rparr>, [])"
| "step s (FirmwareUrlSettled (Inl e)) = (s, [])"
| "step s (FileChosen file read_ok res) = (s, uploadFirmware file read_ok res)"
| "step s Unmount = (s\<lparr> interval := None \<rparr>, [])"

fun run :: "session \<Rightarrow> event list \<Rightarrow> session \<times> effect list" where
  "run s [] = (s, [])"
| "run s (e # es) =
     (case step s e of (s', out) \<Rightarrow>
        (case run s' es of (s'', out') \<Rightarrow> (s'', out @ out')))"

subsection \<open>What the session renders\<close>

text \<open>
  \<open>progress ? bar : (link?, upload control)\<close>. The bar is chosen by the truthiness of
  \<open>progress\<close>: \<open>null\<close>, 0 and \<open>NaN\<close> are falsy. The link is chosen by the truthiness of
  \<open>firmwareURL\<close>: \<open>null\<close> and the empty string are falsy. \<open>UploadView l\<close> always
  holds the upload control, and the link to \<open>u\<close> when \<open>l = Some u\<close>.
\<close>

datatype view =
    ProgressBar js_number
  | UploadView "js_string option"

definition render :: "session \<Rightarrow> view" where
  "render s =
     (let idle = UploadView (case firmwareURL s of
                               Some u \<Rightarrow> if u \<noteq> [] then Some u else None
                             | None \<Rightarrow> None)
      in case progress s of
           Some p \<Rightarrow> if truthy p then ProgressBar p else idle
         | None \<Rightarrow> idle)"

fun shows_upload_control :: "view \<Rightarrow> bool" where
  "shows_upload_control (UploadView _) = True"
| "shows_upload_control (ProgressBar _) = False"

fun shows_progress_bar :: "view \<Rightarrow> bool" where
  "shows_progress_bar (ProgressBar _) = True"
| "shows_progress_bar (UploadView _) = False"

fun shown_link :: "view \<Rightarrow> js_string option" where
  "shown_link (UploadView l) = l"
| "shown_link (ProgressBar _) = None"

subsection \<open>Kinds of events\<close>

text \<open>A tick of the timer, or a \<open>progress\<close> promise that was rejected.\<close>

fun tick_or_failed_poll :: "event \<Rightarrow> bool" where
  "tick_or_failed_poll TimerDue = True"
| "tick_or_failed_poll (ProgressSettled (Inl _)) = True"
| "tick_or_failed_poll _ = False"

text \<open>A \<open>progress\<close> promise that resolved with a number.\<close>

fun numeric_progress :: "event \<Rightarrow> bool" where
  "numeric_progress (ProgressSettled (Inr (Some _))) = True"
| "numeric_progress _ = False"

definition ticks :: "event list \<Rightarrow> nat" where
  "ticks evs = length (filter (\<lambda>e. e = TimerDue) evs)"

text \<open>
  The value most recently resolved by a \<open>progress\<close> promise in a stretch of events,
  \<open>p\<close> when there is none; and the same for the answers to \<open>get_firmware_url\<close>.
\<close>

fun latest_progress :: "js_number option \<Rightarrow> event list \<Rightarrow> js_number option" where
  "latest_progress p [] = p"
| "latest_progress p (ProgressSettled (Inr q) # evs) = latest_progress q evs"
| "latest_progress p (_ # evs) = latest_progress p evs"

fun latest_url :: "js_string option \<Rightarrow> event list \<Rightarrow> js_string option" where
  "latest_url u [] = u"
| "latest_url u (FirmwareUrlSettled (Inr w) # evs) = latest_url w evs"
| "latest_url u (_ # evs) = latest_url u evs"

text \<open>The link that is rendered for a stored URL: none for \<open>null\<close> and for the empty string.\<close>

definition link_of :: "js_string option \<Rightarrow> js_string option" where
  "link_of url = (case url of Some u \<Rightarrow> if u \<noteq> [] then Some u else None | None \<Rightarrow> None)"

section \<open>Properties\<close>

subsection \<open>Effects and runs\<close>

lemma invocations_append: "invocations (xs @ ys) = invocations xs @ invocations ys"
  by (induction xs rule: invocations.induct) simp_all

lemma invocations_replicate: "invocations (replicate n (Invoke r)) = replicate n r"
  by (induction n) simp_all

lemma reported_replicate: "reported (replicate n (Invoke r)) = []"
  by (induction n) simp_all

lemma run_append:
  "run s (xs @ ys) =
     (case run s xs of (s', out) \<Rightarrow> (case run s' ys of (s'', out') \<Rightarrow> (s'', out @ out')))"
  by (induction xs arbitrary: s) (simp_all split: prod.splits)

lemma fst_run_Cons: "fst (run s (e # es)) = fst (run (fst (step s e)) es)"
  by (simp split: prod.splits)

lemma snd_run_Cons: "snd (run s (e # es)) = snd (step s e) @ snd (run (fst (step s e)) es)"
  by (simp split: prod.splits)

lemma numeric_progress_Inr: "numeric_progress (ProgressSettled (Inr p)) \<longleftrightarrow> p \<noteq> None"
  by (cases p) simp_all

lemma step_failed_poll:
  "tick_or_failed_poll e \<Longrightarrow> interval s = Some p \<Longrightarrow>
     step s e = (s, if e = TimerDue then [Invoke Progress] else [])"
  by (induction e rule: tick_or_failed_poll.induct) simp_all

lemma run_failed_polls:
  "list_all tick_or_failed_poll evs \<Longrightarrow> interval s = Some p \<Longrightarrow>
     run s evs = (s, replicate (ticks evs) (Invoke Progress))"
proof (induction evs)
  case Nil
  then show ?case by (simp add: ticks_def)
next
  case (Cons e evs)
  then have "step s e = (s, if e = TimerDue then [Invoke Progress] else [])"
    by (simp add: step_failed_poll)
  with Cons show ?case by (simp add: ticks_def)
qed

subsection \<open>The operations of the header\<close>

lemma invocations_rpc_catch_addError:
  "invocations (rpc_catch_addError req res) = [req]"
  by (cases res) (simp_all add: rpc_catch_addError_def)

text \<open>
  C2. A candidate name longer than 16 code units is answered with the client-side
  validation error and no invocation at all reaches the device; a candidate of at most
  16 code units gives exactly one invocation, \<open>set_name\<close> carrying that very name.
\<close>

theorem changeName_validates_length:
  "(length newName > 16 \<longrightarrow>
      changeName newName res = [AddError (lit ''Name is too long!'')]
      \<and> invocations (changeName newName res) = [])
   \<and> (length newName \<le> 16 \<longrightarrow>
      invocations (changeName newName res) = [SetName newName])"
  by (simp add: changeName_def invocations_rpc_catch_addError)

theorem changeName_validates_length_witness:
  "length (lit ''ThisNameIsWayTooLongToFit'') > 16
   \<and> changeName (lit ''ThisNameIsWayTooLongToFit'') (Inr ()) = [AddError (lit ''Name is too long!'')]
   \<and> invocations (changeName (lit ''ThisNameIsWayTooLongToFit'') (Inr ())) = []
   \<and> length (lit ''SixteenCodeUnits'') \<le> 16
   \<and> invocations (changeName (lit ''SixteenCodeUnits'') (Inl (lit ''timeout''))) = [SetName (lit ''SixteenCodeUnits'')]"
  using changeName_validates_length [of "lit ''ThisNameIsWayTooLongToFit''" "Inr ()"]
        changeName_validates_length [of "lit ''SixteenCodeUnits''" "Inl (lit ''timeout'')"]
  by (simp add: lit_def)

text \<open>
  C3, as the specification words it: no candidate outside \<open>[0, 61]\<close> passes the range
  constraint of the id field, so 62 is refused. The field's \<open>max\<close> is \<open>0x3F - 1 = 62\<close>
  and is inclusive: 62 passes.
\<close>

theorem changeId_input_accepts_62:
  "in_range changeId_input 62 \<and> \<not> (0 \<le> (62::int) \<and> (62::int) \<le> 61)"
  by (simp add: in_range_def changeId_input_def)

text \<open>
  C3, amended. The id field declares the closed range \<open>[0, 62]\<close> with step 1: an
  integer passes its range constraint exactly when it lies in \<open>[0, 62]\<close>; 0, 61 and 62
  pass, -1 and 63 do not.
\<close>

theorem changeId_input_range:
  "(in_range changeId_input v \<longleftrightarrow> 0 \<le> v \<and> v \<le> 62)
   \<and> in_range changeId_input 0 \<and> in_range changeId_input 61 \<and> in_range changeId_input 62
   \<and> \<not> in_range changeId_input 63 \<and> \<not> in_range changeId_input (-1)"
  by (simp add: in_range_def changeId_input_def)

text \<open>
  C4. When the conversion of the operator's reply gives \<open>NaN\<close>, the new id is 0 and the
  operation goes on: exactly one invocation is issued, \<open>set_id\<close> with id 0, and nothing
  is reported unless that invocation itself fails.
\<close>

theorem changeId_unparsable_sends_zero:
  assumes "Number reply = NaN"
  shows "invocations (changeId Number reply res) = [SetId (Num 0)]
         \<and> changeId Number reply (Inr ()) = [Invoke (SetId (Num 0))]
         \<and> method_name (SetId (Num 0)) = ''set_id''"
proof (intro conjI)
  show "invocations (changeId Number reply res) = [SetId (Num 0)]"
    using assms by (simp add: changeId_def or_zero_def invocations_rpc_catch_addError)
  show "changeId Number reply (Inr ()) = [Invoke (SetId (Num 0))]"
    using assms by (simp add: changeId_def or_zero_def rpc_catch_addError_def)
  show "method_name (SetId (Num 0)) = ''set_id''"
    by simp
qed

theorem changeId_unparsable_sends_zero_witness:
  "(\<lambda>s. if s = lit ''12'' then Num 12 else NaN) (lit ''abc'') = NaN
   \<and> invocations (changeId (\<lambda>s. if s = lit ''12'' then Num 12 else NaN) (lit ''abc'') (Inr ()))
       = [SetId (Num 0)]
   \<and> changeId (\<lambda>s. if s = lit ''12'' then Num 12 else NaN) (lit ''abc'') (Inr ())
       = [Invoke (SetId (Num 0))]"
  using changeId_unparsable_sends_zero
          [of "\<lambda>s. if s = lit ''12'' then Num 12 else NaN" "lit ''abc''" "Inr ()"]
  by (simp add: lit_def)

text \<open>
  C9, at a failing invocation. \<open>blink\<close> and \<open>commit_to_eeprom\<close> are issued once and
  not retried, but the rejection is handed to nobody: \<open>addError\<close> is never called.
  The sibling operations \<open>set_id\<close> and \<open>set_name\<close> do report the same rejection.
\<close>

theorem utility_failure_not_reported:
  "blink_onClick (Inl (lit ''device disconnected''))
     = [Invoke Blink, UnhandledRejection (lit ''device disconnected'')]
   \<and> reported (blink_onClick (Inl (lit ''device disconnected''))) = []
   \<and> commit_onClick (Inl (lit ''device disconnected''))
     = [Invoke CommitToEeprom, UnhandledRejection (lit ''device disconnected'')]
   \<and> reported (commit_onClick (Inl (lit ''device disconnected''))) = []
   \<and> reported (changeName (lit ''abc'') (Inl (lit ''device disconnected'')))
     = [lit ''device disconnected'']"
  by (simp add: blink_onClick_def commit_onClick_def rpc_bare_def changeName_def
        rpc_catch_addError_def lit_def)

subsection \<open>The firmware-upgrade session\<close>

lemma step_interval_None:
  "interval s = None \<Longrightarrow>
     interval (fst (step s e)) = None \<and> Progress \<notin> set (invocations (snd (step s e)))"
  by (induction s e rule: step.induct)
     (simp_all add: uploadFirmware_def invocations_rpc_catch_addError)

lemma run_interval_None:
  "interval s = None \<Longrightarrow>
     interval (fst (run s evs)) = None \<and> Progress \<notin> set (invocations (snd (run s evs)))"
proof (induction evs arbitrary: s)
  case Nil
  then show ?case by simp
next
  case (Cons e evs)
  from step_interval_None [OF Cons.prems, of e]
  have a: "interval (fst (step s e)) = None"
    and b: "Progress \<notin> set (invocations (snd (step s e)))" by simp_all
  from Cons.IH [OF a] b show ?case
    by (simp only: fst_run_Cons snd_run_Cons invocations_append set_append Un_iff) simp
qed

lemma run_Unmount_interval: "interval (fst (run s (pre @ [Unmount]))) = None"
  by (simp add: run_append split: prod.splits)

text \<open>
  C1. In a mounted session, take any stretch of events made of timer ticks and rejected
  \<open>progress\<close> promises only, with as many failures as one likes. One rejected promise
  changes nothing and produces no effect at all. After the whole stretch, and so after
  each of its failures, the session is the same: the same stored progress, the same
  rendering; nothing was handed to \<open>addError\<close>; every tick issued its \<open>progress\<close>
  invocation; the timer is still registered with the same period, and the next tick
  issues a \<open>progress\<close> invocation again.
\<close>

theorem failed_polls_change_nothing:
  assumes "interval s = Some p" and "list_all tick_or_failed_poll evs"
  shows "step s (ProgressSettled (Inl err)) = (s, [])
         \<and> fst (run s evs) = s
         \<and> progress (fst (run s evs)) = progress s
         \<and> render (fst (run s evs)) = render s
         \<and> reported (snd (run s evs)) = []
         \<and> invocations (snd (run s evs)) = replicate (ticks evs) Progress
         \<and> interval (fst (run s evs)) = Some p
         \<and> step (fst (run s evs)) TimerDue = (s, [Invoke Progress])"
proof -
  have r: "run s evs = (s, replicate (ticks evs) (Invoke Progress))"
    using assms by (simp add: run_failed_polls)
  show ?thesis
    using assms(1) by (simp add: r reported_replicate invocations_replicate)
qed

theorem failed_polls_change_nothing_witness:
  "interval \<lparr> progress = Some (Num 45), firmwareURL = None, interval = Some 250 \<rparr> = Some 250
   \<and> list_all tick_or_failed_poll
        [TimerDue, ProgressSettled (Inl (lit ''gone'')), TimerDue, ProgressSettled (Inl (lit ''gone''))]
   \<and> fst (run \<lparr> progress = Some (Num 45), firmwareURL = None, interval = Some 250 \<rparr>
        [TimerDue, ProgressSettled (Inl (lit ''gone'')), TimerDue, ProgressSettled (Inl (lit ''gone''))])
       = \<lparr> progress = Some (Num 45), firmwareURL = None, interval = Some 250 \<rparr>
   \<and> render (fst (run \<lparr> progress = Some (Num 45), firmwareURL = None, interval = Some 250 \<rparr>
        [TimerDue, ProgressSettled (Inl (lit ''gone'')), TimerDue, ProgressSettled (Inl (lit ''gone''))]))
       = ProgressBar (Num 45)
   \<and> reported (snd (run \<lparr> progress = Some (Num 45), firmwareURL = None, interval = Some 250 \<rparr>
        [TimerDue, ProgressSettled (Inl (lit ''gone'')), TimerDue, ProgressSettled (Inl (lit ''gone''))]))
       = []
   \<and> invocations (snd (run \<lparr> progress = Some (Num 45), firmwareURL = None, interval = Some 250 \<rparr>
        [TimerDue, ProgressSettled (Inl (lit ''gone'')), TimerDue, ProgressSettled (Inl (lit ''gone''))]))
       = [Progress, Progress]"
  using failed_polls_change_nothing
          [of "\<lparr> progress = Some (Num 45), firmwareURL = None, interval = Some 250 \<rparr>" 250
              "[TimerDue, ProgressSettled (Inl (lit ''gone'')), TimerDue, ProgressSettled (Inl (lit ''gone''))]"
              "lit ''gone''"]
  by (simp add: render_def ticks_def)

text \<open>
  One choice of a file gives exactly one invocation, \<open>do_field_upgrade\<close>, whatever the
  outcome of the read and of the invocation, and changes nothing of the session. When
  the read has completed, the payload is the bytes of the file, all of them and in
  order: as many numbers as the file has bytes, each the value of its byte, and the
  file is recovered from them. When the read has failed, the payload is empty.
\<close>

lemma uploadFirmware_completed_read:
  "length (invocations (uploadFirmware file read_ok res)) = 1
   \<and> invocations (uploadFirmware file True res) = [DoFieldUpgrade (map unat file)]
   \<and> uploadFirmware file True (Inr ()) = [Invoke (DoFieldUpgrade (map unat file))]
   \<and> method_name (DoFieldUpgrade (map unat file)) = ''do_field_upgrade''
   \<and> length (map unat file) = length file
   \<and> map of_nat (map unat file) = file
   \<and> invocations (uploadFirmware file False res) = [DoFieldUpgrade []]
   \<and> step s (FileChosen file read_ok res) = (s, uploadFirmware file read_ok res)"
proof (intro conjI)
  show "length (invocations (uploadFirmware file read_ok res)) = 1"
    by (simp add: uploadFirmware_def invocations_rpc_catch_addError)
  show "invocations (uploadFirmware file True res) = [DoFieldUpgrade (map unat file)]"
    by (simp add: uploadFirmware_def invocations_rpc_catch_addError
          reader_result_def Uint8Array_def Array_from_def)
  show "uploadFirmware file True (Inr ()) = [Invoke (DoFieldUpgrade (map unat file))]"
    by (simp add: uploadFirmware_def rpc_catch_addError_def
          reader_result_def Uint8Array_def Array_from_def)
  show "method_name (DoFieldUpgrade (map unat file)) = ''do_field_upgrade''"
    by simp
  show "length (map unat file) = length file"
    by simp
  show "map of_nat (map unat file) = file"
    by (simp add: comp_def)
  show "invocations (uploadFirmware file False res) = [DoFieldUpgrade []]"
    by (simp add: uploadFirmware_def invocations_rpc_catch_addError
          reader_result_def Uint8Array_def Array_from_def)
  show "step s (FileChosen file read_ok res) = (s, uploadFirmware file read_ok res)"
    by simp
qed

text \<open>
  C5, at a choice of a file whose read fails. The file holds the four bytes
  71, 82, 80, 76. The listener is on \<open>loadend\<close>, which comes after a failed read too,
  with \<open>null\<close> as the result: one \<open>do_field_upgrade\<close> is still issued, and its payload
  is empty, not the bytes of the file. The same choice with a completed read sends the
  four bytes.
\<close>

theorem uploadFirmware_failed_read_sends_empty:
  "reader_result [71, 82, 80, 76] False = None
   \<and> uploadFirmware [71, 82, 80, 76] False (Inr ()) = [Invoke (DoFieldUpgrade [])]
   \<and> invocations (uploadFirmware [71, 82, 80, 76] False (Inr ()))
       \<noteq> [DoFieldUpgrade (map unat [71, 82, 80, 76 :: 8 word])]
   \<and> step (fst mount) (FileChosen [71, 82, 80, 76] False (Inr ()))
       = (fst mount, [Invoke (DoFieldUpgrade [])])
   \<and> uploadFirmware [71, 82, 80, 76] True (Inr ()) = [Invoke (DoFieldUpgrade [71, 82, 80, 76])]"
  by (simp add: uploadFirmware_def rpc_catch_addError_def reader_result_def
        Uint8Array_def Array_from_def)

text \<open>
  C6. Unmounting removes the registration of the timer. A tick that comes due right
  after that runs nothing. Whatever happened before the unmount (\<open>pre\<close>, with failures
  or not) and whatever comes after it (\<open>post\<close>: ticks, late promises, file choices),
  there is no \<open>progress\<close> invocation among the effects after the unmount.
\<close>

theorem unmount_stops_polling:
  "step (fst (step s Unmount)) TimerDue = (fst (step s Unmount), [])
   \<and> interval (fst (run s (pre @ [Unmount]))) = None
   \<and> Progress \<notin> set (invocations (snd (run (fst (run s (pre @ [Unmount]))) post)))"
  using run_interval_None [OF run_Unmount_interval, of s pre post]
  by (simp add: run_Unmount_interval)

lemma progress_step: "progress (fst (step s e)) = latest_progress (progress s) [e]"
  by (induction s e rule: step.induct) simp_all

lemma latest_progress_Cons:
  "latest_progress p (e # evs) = latest_progress (latest_progress p [e]) evs"
  by (induction p "[e]" rule: latest_progress.induct) auto

lemma progress_run: "progress (fst (run s evs)) = latest_progress (progress s) evs"
proof (induction evs arbitrary: s)
  case Nil
  show ?case by simp
next
  case (Cons e evs)
  have "progress (fst (run s (e # evs))) = latest_progress (progress (fst (step s e))) evs"
    by (simp only: fst_run_Cons Cons.IH)
  also have "\<dots> = latest_progress (progress s) (e # evs)"
    by (simp only: progress_step latest_progress_Cons [symmetric])
  finally show ?case .
qed

lemma firmwareURL_step: "firmwareURL (fst (step s e)) = latest_url (firmwareURL s) [e]"
  by (induction s e rule: step.induct) simp_all

lemma latest_url_Cons:
  "latest_url u (e # evs) = latest_url (latest_url u [e]) evs"
  by (induction u "[e]" rule: latest_url.induct) auto

lemma firmwareURL_run: "firmwareURL (fst (run s evs)) = latest_url (firmwareURL s) evs"
proof (induction evs arbitrary: s)
  case Nil
  show ?case by simp
next
  case (Cons e evs)
  have "firmwareURL (fst (run s (e # evs))) = latest_url (firmwareURL (fst (step s e))) evs"
    by (simp only: fst_run_Cons Cons.IH)
  also have "\<dots> = latest_url (firmwareURL s) (e # evs)"
    by (simp only: firmwareURL_step latest_url_Cons [symmetric])
  finally show ?case .
qed

lemma latest_progress_no_numeric:
  "list_all (\<lambda>e. \<not> numeric_progress e) evs \<Longrightarrow> latest_progress None evs = None"
  by (induction "None :: js_number option" evs rule: latest_progress.induct)
     (simp_all add: numeric_progress_Inr)

text \<open>
  C8, as the specification words it: once a numeric progress has been observed, only
  the bar is shown and the upload control is hidden. The polls resolve with 45, and the
  bar is shown; the next poll resolves with 0, or with \<open>null\<close>, and the upload control
  is back and the bar is gone, although a numeric progress has been observed.
\<close>

theorem display_not_latched:
  "numeric_progress (ProgressSettled (Inr (Some (Num 45))))
   \<and> render (fst (run (fst mount) [TimerDue, ProgressSettled (Inr (Some (Num 45)))]))
       = ProgressBar (Num 45)
   \<and> shows_upload_control (render (fst (run (fst mount)
        [TimerDue, ProgressSettled (Inr (Some (Num 45))),
         TimerDue, ProgressSettled (Inr (Some (Num 0)))])))
   \<and> \<not> shows_progress_bar (render (fst (run (fst mount)
        [TimerDue, ProgressSettled (Inr (Some (Num 45))),
         TimerDue, ProgressSettled (Inr (Some (Num 0)))])))
   \<and> shows_upload_control (render (fst (run (fst mount)
        [TimerDue, ProgressSettled (Inr (Some (Num 45))),
         TimerDue, ProgressSettled (Inr None)])))"
  by (simp add: mount_def render_def)

text \<open>
  C8, amended. The rendering follows the progress most recently resolved and the URL
  most recently resolved, through any stretch of events from any state; at the mount
  both are absent.
  \<^item> As long as no \<open>progress\<close> promise has resolved with a number since the mount, the
    upload control is rendered, with no bar, together with the download link exactly
    when the latest URL is a non-empty string.
  \<^item> Whenever the latest progress is absent or the number 0, the rendering is the same:
    upload control, no bar, and the link when the latest URL is a non-empty string.
  \<^item> Whenever the latest progress is a number other than 0, the rendering is the bar
    alone, with neither upload control nor link.
\<close>

theorem display_follows_latest_progress:
  "progress (fst mount) = None \<and> firmwareURL (fst mount) = None
   \<and> progress (fst (run s evs)) = latest_progress (progress s) evs
   \<and> firmwareURL (fst (run s evs)) = latest_url (firmwareURL s) evs
   \<and> progress (fst (step s (ProgressSettled (Inr q)))) = q
   \<and> firmwareURL (fst (step s (FirmwareUrlSettled (Inr w)))) = w
   \<and> (list_all (\<lambda>e. \<not> numeric_progress e) evs \<longrightarrow>
        render (fst (run (fst mount) evs)) = UploadView (link_of (latest_url None evs))
        \<and> shows_upload_control (render (fst (run (fst mount) evs)))
        \<and> \<not> shows_progress_bar (render (fst (run (fst mount) evs))))
   \<and> (latest_progress (progress s) evs = None \<or> latest_progress (progress s) evs = Some (Num 0) \<longrightarrow>
        render (fst (run s evs)) = UploadView (link_of (latest_url (firmwareURL s) evs))
        \<and> shows_upload_control (render (fst (run s evs)))
        \<and> \<not> shows_progress_bar (render (fst (run s evs)))
        \<and> shown_link (render (fst (run s evs))) = link_of (latest_url (firmwareURL s) evs))
   \<and> (latest_progress (progress s) evs = Some (Num v) \<and> v \<noteq> 0 \<longrightarrow>
        render (fst (run s evs)) = ProgressBar (Num v)
        \<and> shows_progress_bar (render (fst (run s evs)))
        \<and> \<not> shows_upload_control (render (fst (run s evs)))
        \<and> shown_link (render (fst (run s evs))) = None)
   \<and> (link_of url = Some u \<longleftrightarrow> url = Some u \<and> u \<noteq> [])"
proof (intro conjI impI)
  show "progress (fst mount) = None" and "firmwareURL (fst mount) = None"
    by (simp_all add: mount_def)
  show "progress (fst (run s evs)) = latest_progress (progress s) evs"
    by (rule progress_run)
  show "firmwareURL (fst (run s evs)) = latest_url (firmwareURL s) evs"
    by (rule firmwareURL_run)
  show "progress (fst (step s (ProgressSettled (Inr q)))) = q"
    by simp
  show "firmwareURL (fst (step s (FirmwareUrlSettled (Inr w)))) = w"
    by simp
  show "link_of url = Some u \<longleftrightarrow> url = Some u \<and> u \<noteq> []"
    by (auto simp: link_of_def split: option.splits)
next
  assume a: "list_all (\<lambda>e. \<not> numeric_progress e) evs"
  have "progress (fst (run (fst mount) evs)) = None"
    using latest_progress_no_numeric [OF a] by (simp add: progress_run mount_def)
  moreover have "firmwareURL (fst (run (fst mount) evs)) = latest_url None evs"
    by (simp add: firmwareURL_run mount_def)
  ultimately show r: "render (fst (run (fst mount) evs)) = UploadView (link_of (latest_url None evs))"
    by (simp add: render_def link_of_def)
  show "shows_upload_control (render (fst (run (fst mount) evs)))"
    and "\<not> shows_progress_bar (render (fst (run (fst mount) evs)))"
    by (simp_all add: r)
next
  assume "latest_progress (progress s) evs = None \<or> latest_progress (progress s) evs = Some (Num 0)"
  then have "progress (fst (run s evs)) = None \<or> progress (fst (run s evs)) = Some (Num 0)"
    by (simp add: progress_run)
  then show r: "render (fst (run s evs)) = UploadView (link_of (latest_url (firmwareURL s) evs))"
    by (auto simp: render_def link_of_def firmwareURL_run)
  show "shows_upload_control (render (fst (run s evs)))"
    and "\<not> shows_progress_bar (render (fst (run s evs)))"
    and "shown_link (render (fst (run s evs))) = link_of (latest_url (firmwareURL s) evs)"
    by (simp_all add: r)
next
  assume "latest_progress (progress s) evs = Some (Num v) \<and> v \<noteq> 0"
  then have "progress (fst (run s evs)) = Some (Num v)" and "v \<noteq> 0"
    by (simp_all add: progress_run)
  then show r: "render (fst (run s evs)) = ProgressBar (Num v)"
    by (simp add: render_def)
  show "shows_progress_bar (render (fst (run s evs)))"
    and "\<not> shows_upload_control (render (fst (run s evs)))"
    and "shown_link (render (fst (run s evs))) = None"
    by (simp_all add: r)
qed

theorem display_follows_latest_progress_witness:
  "list_all (\<lambda>e. \<not> numeric_progress e)
      [TimerDue, FirmwareUrlSettled (Inr (Some (lit ''https://fw''))), ProgressSettled (Inl (lit ''gone''))]
   \<and> render (fst (run (fst mount)
        [TimerDue, FirmwareUrlSettled (Inr (Some (lit ''https://fw''))), ProgressSettled (Inl (lit ''gone''))]))
       = UploadView (Some (lit ''https://fw''))
   \<and> latest_progress (progress (fst mount))
        [FirmwareUrlSettled (Inr (Some (lit ''https://fw''))), ProgressSettled (Inr (Some (Num 45)))]
       = Some (Num 45) \<and> (45::real) \<noteq> 0
   \<and> render (fst (run (fst mount)
        [FirmwareUrlSettled (Inr (Some (lit ''https://fw''))), ProgressSettled (Inr (Some (Num 45)))]))
       = ProgressBar (Num 45)
   \<and> latest_progress (progress (fst mount))
        [FirmwareUrlSettled (Inr (Some (lit ''https://fw''))), ProgressSettled (Inr (Some (Num 45))),
         ProgressSettled (Inr (Some (Num 0)))]
       = Some (Num 0)
   \<and> render (fst (run (fst mount)
        [FirmwareUrlSettled (Inr (Some (lit ''https://fw''))), ProgressSettled (Inr (Some (Num 45))),
         ProgressSettled (Inr (Some (Num 0)))]))
       = UploadView (Some (lit ''https://fw''))
   \<and> render (fst (run (fst mount) [FirmwareUrlSettled (Inr None)])) = UploadView None"
  using display_follows_latest_progress
          [of "fst mount"
              "[TimerDue, FirmwareUrlSettled (Inr (Some (lit ''https://fw''))), ProgressSettled (Inl (lit ''gone''))]"
              None None 1 None "lit ''https://fw''"]
        display_follows_latest_progress
          [of "fst mount"
              "[FirmwareUrlSettled (Inr (Some (lit ''https://fw''))), ProgressSettled (Inr (Some (Num 45)))]"
              None None 45 None "lit ''https://fw''"]
        display_follows_latest_progress
          [of "fst mount"
              "[FirmwareUrlSettled (Inr (Some (lit ''https://fw''))), ProgressSettled (Inr (Some (Num 45))),
                ProgressSettled (Inr (Some (Num 0)))]"
              None None 1 None "lit ''https://fw''"]
        display_follows_latest_progress
          [of "fst mount" "[FirmwareUrlSettled (Inr None)]" None None 1 None "lit ''https://fw''"]
  by (simp add: mount_def render_def link_of_def lit_def)

subsection \<open>Dispatch and heading\<close>

lemma map_of_FACTORIES_iff:
  "map_of FACTORIES k = Some c \<longleftrightarrow> (k, c) \<in> set FACTORIES"
  by (rule iffI, erule map_of_SomeD, rule map_of_is_SomeI)
     (simp_all add: FACTORIES_def lit_def)

lemma getFactory_registered:
  "(k, c) \<in> set FACTORIES \<Longrightarrow>
     getFactory k = Factory c \<and> DeviceComponent_body info k = Inr (Built c info)"
  by (simp add: getFactory_def DeviceComponent_body_def map_of_FACTORIES_iff [symmetric])

lemma getFactory_unregistered:
  "k \<notin> fst ` set FACTORIES \<Longrightarrow> k \<notin> set Object_prototype \<Longrightarrow>
     getFactory k = Undefined \<and> DeviceComponent_body info k = Inr (Bug (device_type info) k)"
  by (simp add: getFactory_def DeviceComponent_body_def map_of_eq_None_iff [THEN iffD2])

text \<open>
  The other inherited names are not registered either, and the call made for them
  throws.
\<close>

lemma inherited_names_throw:
  "k \<in> {lit ''valueOf'', lit ''hasOwnProperty'', lit ''isPrototypeOf'',
         lit ''propertyIsEnumerable'', lit ''toLocaleString'', lit ''__defineGetter__'',
         lit ''__defineSetter__'', lit ''__lookupGetter__'', lit ''__lookupSetter__'',
         lit ''__proto__''}
   \<Longrightarrow> DeviceComponent_body info k = Inl TypeError"
  by (auto simp: DeviceComponent_body_def getFactory_def FACTORIES_def Object_prototype_def lit_def)

lemma inherited_toString:
  "DeviceComponent_body info (lit ''toString'') = Inr (BuiltinCalled (lit ''toString''))"
  by (simp add: DeviceComponent_body_def getFactory_def FACTORIES_def Object_prototype_def lit_def)

text \<open>
  C7, at class names that are not registered. \<open>constructor\<close> is no key of the table,
  yet the read \<open>FACTORIES["constructor"]\<close> finds the property of the prototype, which
  is not \<open>undefined\<close>: the \<open>Bug\<close> element is not produced, the inherited function is
  called instead. For \<open>__proto__\<close> the value read is not callable and the call throws.
\<close>

theorem dispatch_inherited_name_misses_fallback:
  "lit ''constructor'' \<notin> fst ` set FACTORIES
   \<and> getFactory (lit ''constructor'') = Inherited (lit ''constructor'')
   \<and> DeviceComponent_body info (lit ''constructor'') = Inr (BuiltinCalled (lit ''constructor''))
   \<and> DeviceComponent_body info (lit ''constructor'') \<noteq> Inr (Bug (device_type info) (lit ''constructor''))
   \<and> lit ''__proto__'' \<notin> fst ` set FACTORIES
   \<and> DeviceComponent_body info (lit ''__proto__'') = Inl TypeError"
  by (simp add: DeviceComponent_body_def getFactory_def FACTORIES_def Object_prototype_def lit_def)

text \<open>
  C10. For a descriptor with the bootloader flag set, the heading is the label of the
  type, then \<open>#id\<close> when the bus id is present, then the marker \<open>FIRMWARE UPDATE\<close>;
  it holds no name part and does not depend on the name at all. When a firmware
  version is present, the paragraph under the heading is there and its version text is
  the one labelled \<open>Bootloader:\<close>, not \<open>Firmware:\<close>.
\<close>

theorem dfu_heading_and_version_label:
  assumes "is_dfu info"
  shows "heading info =
           [TypeLabel (renderDeviceType (device_type info))]
           @ (case device_id info of Some i \<Rightarrow> [IdTag i] | None \<Rightarrow> [])
           @ [OrangeSpan (lit ''FIRMWARE UPDATE'')]
         \<and> NameTag n \<notin> set (heading info)
         \<and> heading (info\<lparr> name := other \<rparr>) = heading info
         \<and> (firmware_version info = Some v \<longrightarrow>
              details info =
                Some ((case serial info of Some x \<Rightarrow> [SerialText x] | None \<Rightarrow> [])
                      @ [VersionText (lit ''Bootloader: '') (Some v)])
              \<and> (\<forall>ds. details info = Some ds \<longrightarrow> VersionText (lit ''Firmware: '') (Some v) \<notin> set ds))"
  using assms
  by (auto simp: heading_def details_def lit_def split: option.splits)

theorem dfu_heading_and_version_label_witness:
  "is_dfu \<lparr> device_type = Grapple (lit ''LaserCAN''), device_id = Some 5,
            name = Some (lit ''Front''), serial = Some 3735928559,
            firmware_version = Some (lit ''1.2.0''), is_dfu = True \<rparr>
   \<and> heading \<lparr> device_type = Grapple (lit ''LaserCAN''), device_id = Some 5,
            name = Some (lit ''Front''), serial = Some 3735928559,
            firmware_version = Some (lit ''1.2.0''), is_dfu = True \<rparr>
       = [TypeLabel (lit ''LaserCAN''), IdTag 5, OrangeSpan (lit ''FIRMWARE UPDATE'')]
   \<and> details \<lparr> device_type = Grapple (lit ''LaserCAN''), device_id = Some 5,
            name = Some (lit ''Front''), serial = Some 3735928559,
            firmware_version = Some (lit ''1.2.0''), is_dfu = True \<rparr>
       = Some [SerialText 3735928559, VersionText (lit ''Bootloader: '') (Some (lit ''1.2.0''))]"
  using dfu_heading_and_version_label
          [of "\<lparr> device_type = Grapple (lit ''LaserCAN''), device_id = Some 5,
                  name = Some (lit ''Front''), serial = Some 3735928559,
                  firmware_version = Some (lit ''1.2.0''), is_dfu = True \<rparr>"
              "lit ''Front''" "None" "lit ''1.2.0''"]
  by simp

subsection \<open>Scenarios\<close>

text \<open>
  A vendor device \<open>LaserCAN\<close> of class \<open>LaserCAN\<close> with bus id 5: the factory of the
  table builds its component, and the heading reads \<open>LaserCAN #5\<close>.
\<close>

lemma scenario_lasercan:
  "DeviceComponent_body
     \<lparr> device_type = Grapple (lit ''LaserCAN''), device_id = Some 5, name = None,
       serial = None, firmware_version = None, is_dfu = False \<rparr> (lit ''LaserCAN'')
     = Inr (Built LaserCanComponent
         \<lparr> device_type = Grapple (lit ''LaserCAN''), device_id = Some 5, name = None,
           serial = None, firmware_version = None, is_dfu = False \<rparr>)
   \<and> heading
     \<lparr> device_type = Grapple (lit ''LaserCAN''), device_id = Some 5, name = None,
       serial = None, firmware_version = None, is_dfu = False \<rparr>
     = [TypeLabel (lit ''LaserCAN''), IdTag 5]"
  by (simp add: DeviceComponent_body_def getFactory_def FACTORIES_def heading_def lit_def)

text \<open>
  The polls resolve with 45, fail twice, and resolve with 100: the renderings after
  the four settlements are the bar at 45, at 45, at 45, and at 100.
\<close>

lemma scenario_poll_sequence:
  "map (\<lambda>evs. render (fst (run (fst mount) evs)))
     [[TimerDue, ProgressSettled (Inr (Some (Num 45)))],
      [TimerDue, ProgressSettled (Inr (Some (Num 45))),
       TimerDue, ProgressSettled (Inl (lit ''gone''))],
      [TimerDue, ProgressSettled (Inr (Some (Num 45))),
       TimerDue, ProgressSettled (Inl (lit ''gone'')),
       TimerDue, ProgressSettled (Inl (lit ''gone''))],
      [TimerDue, ProgressSettled (Inr (Some (Num 45))),
       TimerDue, ProgressSettled (Inl (lit ''gone'')),
       TimerDue, ProgressSettled (Inl (lit ''gone'')),
       TimerDue, ProgressSettled (Inr (Some (Num 100)))]]
   = [ProgressBar (Num 45), ProgressBar (Num 45), ProgressBar (Num 45), ProgressBar (Num 100)]"
  by (simp add: mount_def render_def)

text \<open>
  A name of 25 code units: the validation error is reported and nothing is invoked.
\<close>

lemma scenario_long_name:
  "changeName (lit ''ThisNameIsWayTooLongToFit'') res = [AddError (lit ''Name is too long!'')]"
  by (simp add: changeName_def lit_def)

end
